theory Spec2Isabelle
  imports Main
begin

section \<open>The order filter of the browser build: \<^verbatim>\<open>orderfilter/validate_js.go\<close>\<close>

text \<open>
  The filter validates JSON documents by calling two JavaScript functions, found by name on
  the JavaScript global object: \<open>orderValidator\<close> for orders and \<open>messageValidator\<close> for
  gossip envelopes. This theory embeds the five methods of \<open>Filter\<close> in that file, with the
  calls into \<open>syscall/js\<close> they make, and proves the properties of the specification
  about them.
\<close>

subsection \<open>Go results\<close>

text \<open>
  A Go call either panics or returns. A panic is not an \<open>error\<close> value: no method of the
  file recovers from one, so a panic of a callee is a panic of its caller.
\<close>

datatype 'a run = Panic | Returns 'a

text \<open>
  A Go \<open>error\<close> value, with the message its \<open>Error()\<close> method gives. A function of
  Go type \<open>(T, error)\<close> is modelled with result type \<open>error + T\<close>: \<open>Inl err\<close> is the
  return of a non-nil error (beside the zero value of \<open>T\<close>, which \<open>Inl\<close> leaves out),
  \<open>Inr x\<close> the return of \<open>x\<close> with a nil error.
\<close>

datatype error = Err string

text \<open>\<open>fmt.Errorf("js error: %s", s)\<close>.\<close>

definition js_error :: "string \<Rightarrow> error" where
  "js_error s = Err (''js error: '' @ s)"

subsection \<open>JavaScript values and the operations of \<open>syscall/js\<close> on them\<close>

text \<open>
  The values held by the properties of a validator's result: a boolean (\<open>success\<close>),
  strings (\<open>fatal\<close> and the error messages), an array (\<open>errors\<close>), and \<open>undefined\<close> and
  \<open>null\<close>, which is what a property that the validator left out or cleared reads as.
  Numbers, symbols, functions and objects other than arrays are left out of the model.
\<close>

datatype js_value =
    JSUndefined
  | JSNull
  | JSBoolean bool
  | JSString string
  | JSArray "js_value list"

text \<open>
  The object a validator returns, as the map from its property names to their values.
\<close>

type_synonym js_object = "string \<rightharpoonup> js_value"

text \<open>
  The JavaScript global object \<open>js.Global()\<close>, as the map from the names of the functions
  installed on it to those functions. A validator takes the document (the Go string that
  \<open>js.ValueOf\<close> hands over) and returns an object, or throws (\<open>Panic\<close>).
\<close>

type_synonym js_global = "string \<rightharpoonup> (string \<Rightarrow> js_object run)"

text \<open>
  \<open>Value.Call(m, arg)\<close> panics when the value has no method \<open>m\<close> and when the
  JavaScript function throws.
\<close>

definition Call :: "js_global \<Rightarrow> string \<Rightarrow> string \<Rightarrow> js_object run" where
  "Call g m arg = (case g m of None \<Rightarrow> Panic | Some fn \<Rightarrow> fn arg)"

text \<open>\<open>Value.Get(p)\<close> on an object: a property the object does not have reads as
  \<open>undefined\<close>.\<close>

definition Get :: "js_object \<Rightarrow> string \<Rightarrow> js_value" where
  "Get obj p = (case obj p of None \<Rightarrow> JSUndefined | Some v \<Rightarrow> v)"

text \<open>\<open>Value.Bool()\<close> panics if the value is not a JavaScript boolean.\<close>

fun Value_Bool :: "js_value \<Rightarrow> bool run" where
  "Value_Bool (JSBoolean b) = Returns b"
| "Value_Bool _ = Panic"

text \<open>\<open>Value.Length()\<close> panics if the value is not a JavaScript object; of the values
  modelled, the arrays are the objects.\<close>

fun Value_Length :: "js_value \<Rightarrow> nat run" where
  "Value_Length (JSArray xs) = Returns (length xs)"
| "Value_Length _ = Panic"

text \<open>
  \<open>v.Get(fmt.Sprintf("%d", i))\<close>: the property of \<open>v\<close> named by the decimal numeral of
  \<open>i\<close>. It panics if \<open>v\<close> is not an object; for an array it is the element at index \<open>i\<close>,
  and \<open>undefined\<close> past the end.
\<close>

fun Value_Get_index :: "js_value \<Rightarrow> nat \<Rightarrow> js_value run" where
  "Value_Get_index (JSArray xs) i = Returns (if i < length xs then xs ! i else JSUndefined)"
| "Value_Get_index _ i = Panic"

text \<open>
  \<open>Value.String()\<close> never panics: it gives a string value itself, and a text of the form
  \<open><T>\<close> or \<open><T: V>\<close> for a value of another type \<open>T\<close>. An array has the type
  object.
\<close>

fun Value_String :: "js_value \<Rightarrow> string" where
  "Value_String (JSString s) = s"
| "Value_String JSUndefined = ''<undefined>''"
| "Value_String JSNull = ''<null>''"
| "Value_String (JSBoolean b) = (if b then ''<boolean: true>'' else ''<boolean: false>'')"
| "Value_String (JSArray xs) = ''<object>''"

text \<open>
  Modelled from the spec: \<open>jsutil.IsNullOrUndefined\<close> is not among the sources. The spec
  has \<open>fatal\<close> optional in the engine's result, and the helper tells whether it is there:
  it holds of \<open>null\<close> and of \<open>undefined\<close> and of nothing else.
\<close>

fun IsNullOrUndefined :: "js_value \<Rightarrow> bool" where
  "IsNullOrUndefined JSNull = True"
| "IsNullOrUndefined JSUndefined = True"
| "IsNullOrUndefined _ = False"

subsection \<open>The methods of \<open>Filter\<close>\<close>

record SchemaValidationResult =
  valid :: bool
  errors :: "error list"

definition Valid :: "SchemaValidationResult \<Rightarrow> bool" where
  "Valid s = valid s"

definition Errors :: "SchemaValidationResult \<Rightarrow> error list" where
  "Errors s = errors s"

text \<open>
  The loop of \<open>ValidateOrderJSON\<close>, from its state \<open>(i, errors)\<close>:
  \<^verbatim>\<open>for i := 0; i < jsErrors.Length(); i++ { errors = append(errors, ...) }\<close>.
  The condition reads the length again on every round.
\<close>

function ValidateOrderJSON_loop :: "js_value \<Rightarrow> nat \<Rightarrow> error list \<Rightarrow> error list run" where
  "ValidateOrderJSON_loop jsErrors i errs =
     (case Value_Length jsErrors of
        Panic \<Rightarrow> Panic
      | Returns n \<Rightarrow>
          if i < n then
            (case Value_Get_index jsErrors i of
               Panic \<Rightarrow> Panic
             | Returns e \<Rightarrow>
                 ValidateOrderJSON_loop jsErrors (i + 1) (errs @ [js_error (Value_String e)]))
          else Returns errs)"
  by pat_completeness auto
termination
  by (relation "measure (\<lambda>(jsErrors, i, errs).
        (case Value_Length jsErrors of Panic \<Rightarrow> 0 | Returns n \<Rightarrow> n - i))") auto

declare ValidateOrderJSON_loop.simps [simp del]

text \<open>
  The receiver \<open>f\<close> of the methods is not a parameter of the model: no method reads a field
  of it. What they do read is the global object, the parameter \<open>g\<close>.
\<close>

definition ValidateOrderJSON :: "js_global \<Rightarrow> string \<Rightarrow> (error + SchemaValidationResult) run" where
  "ValidateOrderJSON g orderJSON =
     (case Call g ''orderValidator'' orderJSON of
        Panic \<Rightarrow> Panic
      | Returns jsResult \<Rightarrow>
          (let fatal = Get jsResult ''fatal'' in
           if \<not> IsNullOrUndefined fatal then Returns (Inl (js_error (Value_String fatal)))
           else
             (case Value_Bool (Get jsResult ''success'') of
                Panic \<Rightarrow> Panic
              | Returns valid' \<Rightarrow>
                  (let jsErrors = Get jsResult ''errors'' in
                   case ValidateOrderJSON_loop jsErrors 0 [] of
                     Panic \<Rightarrow> Panic
                   | Returns errors' \<Rightarrow>
                       Returns (Inr \<lparr>valid = valid', errors = errors'\<rparr>)))))"

text \<open>
  \<open>order.MarshalJSON()\<close> belongs to the package \<open>zeroex\<close>, which is not among the sources:
  the order type is a type variable and the method a parameter, which returns an error or
  the JSON document.
\<close>

definition ValidateOrder ::
  "js_global \<Rightarrow> ('order \<Rightarrow> error + string) \<Rightarrow> 'order \<Rightarrow> (error + SchemaValidationResult) run" where
  "ValidateOrder g MarshalJSON order =
     (case MarshalJSON order of
        Inl err \<Rightarrow> Returns (Inl err)
      | Inr orderJSON \<Rightarrow> ValidateOrderJSON g orderJSON)"

definition MatchOrder ::
  "js_global \<Rightarrow> ('order \<Rightarrow> error + string) \<Rightarrow> 'order \<Rightarrow> (error + bool) run" where
  "MatchOrder g MarshalJSON order =
     (case ValidateOrder g MarshalJSON order of
        Panic \<Rightarrow> Panic
      | Returns (Inl err) \<Rightarrow> Returns (Inl err)
      | Returns (Inr result) \<Rightarrow> Returns (Inr (Valid result)))"

definition MatchOrderMessageJSON :: "js_global \<Rightarrow> string \<Rightarrow> (error + bool) run" where
  "MatchOrderMessageJSON g messageJSON =
     (case Call g ''messageValidator'' messageJSON of
        Panic \<Rightarrow> Panic
      | Returns jsResult \<Rightarrow>
          (let fatal = Get jsResult ''fatal'' in
           if \<not> IsNullOrUndefined fatal then Returns (Inl (js_error (Value_String fatal)))
           else
             (case Value_Bool (Get jsResult ''success'') of
                Panic \<Rightarrow> Panic
              | Returns success \<Rightarrow> Returns (Inr success))))"

text \<open>
  The arguments of the pubsub validator, whose types are declared outside the sources.
  \<open>peer.ID\<close> is a Go string. Of the context only whether it is cancelled is kept. The
  message is the one pubsub received: it has the payload \<open>Data\<close> and, of the other fields
  of the protocol message, the sender, the sequence number and the topics.
\<close>

record Context =
  cancelled :: bool

type_synonym peer_ID = string

record Message =
  From :: string
  Data :: string
  Seqno :: string
  TopicIDs :: "string list"

text \<open>
  What \<open>log.WithError(err).Error(text)\<close> writes: one entry at level error, with the text
  and the error. The log is state: the validator takes it and returns it, extended or not.
\<close>

datatype log_level = ErrorLevel

record log_entry =
  level :: log_level
  message :: string
  error_field :: error

definition ValidatePubSubMessage ::
  "js_global \<Rightarrow> Context \<Rightarrow> peer_ID \<Rightarrow> Message \<Rightarrow> log_entry list \<Rightarrow> (bool \<times> log_entry list) run" where
  "ValidatePubSubMessage g ctx sender msg lg =
     (case MatchOrderMessageJSON g (Data msg) of
        Panic \<Rightarrow> Panic
      | Returns (Inl err) \<Rightarrow>
          Returns (False, lg @ [\<lparr>level = ErrorLevel,
                                   message = ''MatchOrderMessageJSON returned an error'',
                                   error_field = err\<rparr>])
      | Returns (Inr isValid) \<Rightarrow> Returns (isValid, lg))"

subsection \<open>The contract of the validation engine\<close>

text \<open>
  Section 6 of the specification gives the result of the engine as a structure that carries
  \<open>success\<close>, a boolean, and \<open>errors\<close>, an ordered sequence of strings, and optionally
  \<open>fatal\<close>, a string; where \<open>fatal\<close> is present the other two are not meaningful. Of
  this contract the envelope path relies on one part, \<open>fatal_or_verdict\<close>: the result
  carries a fatal signal, or else its \<open>success\<close> is a boolean. It constrains the engine,
  which is outside the filter, and no argument of a method.
\<close>

fun is_boolean :: "js_value \<Rightarrow> bool" where
  "is_boolean (JSBoolean b) = True"
| "is_boolean _ = False"

definition fatal_or_verdict :: "js_object \<Rightarrow> bool" where
  "fatal_or_verdict r =
     (\<not> IsNullOrUndefined (Get r ''fatal'') \<or> is_boolean (Get r ''success''))"

text \<open>
  The specification's \<open>matchOrderDocument\<close>, which the source does not have as a method:
  \<open>ValidateOrderJSON\<close> on the document, followed by the projection \<open>Valid()\<close>.
\<close>

definition matchOrderDocument :: "js_global \<Rightarrow> string \<Rightarrow> (error + bool) run" where
  "matchOrderDocument g orderJSON =
     (case ValidateOrderJSON g orderJSON of
        Panic \<Rightarrow> Panic
      | Returns (Inl err) \<Rightarrow> Returns (Inl err)
      | Returns (Inr result) \<Rightarrow> Returns (Inr (Valid result)))"

section \<open>Properties\<close>

subsection \<open>The loop and the two calls of the engine\<close>

text \<open>On an array the loop appends one error for each element from index \<open>i\<close> on, in order.\<close>

lemma ValidateOrderJSON_loop_array:
  "ValidateOrderJSON_loop (JSArray xs) i errs =
     Returns (errs @ map (\<lambda>e. js_error (Value_String e)) (drop i xs))"
proof (induction "length xs - i" arbitrary: i errs)
  case 0
  then show ?case by (simp add: ValidateOrderJSON_loop.simps)
next
  case (Suc k)
  then have lt: "i < length xs" and k: "k = length xs - (i + 1)" by simp_all
  have "drop i xs = xs ! i # drop (i + 1) xs"
    using lt by (simp add: Cons_nth_drop_Suc)
  then show ?case
    using lt Suc.hyps(1) [OF k] by (subst ValidateOrderJSON_loop.simps) simp
qed

lemma is_boolean_cases: "is_boolean v \<Longrightarrow> \<exists>b. v = JSBoolean b"
  by (cases v) simp_all

lemma ValidateOrderJSON_fatal:
  assumes "Call g ''orderValidator'' doc = Returns r"
    and "\<not> IsNullOrUndefined (Get r ''fatal'')"
  shows "ValidateOrderJSON g doc = Returns (Inl (js_error (Value_String (Get r ''fatal''))))"
  using assms by (simp add: ValidateOrderJSON_def)

lemma ValidateOrderJSON_non_fatal:
  assumes "Call g ''orderValidator'' doc = Returns r"
    and "IsNullOrUndefined (Get r ''fatal'')"
    and "Get r ''success'' = JSBoolean b" and "Get r ''errors'' = JSArray xs"
  shows "ValidateOrderJSON g doc =
           Returns (Inr \<lparr>valid = b, errors = map (\<lambda>e. js_error (Value_String e)) xs\<rparr>)"
  using assms by (simp add: ValidateOrderJSON_def ValidateOrderJSON_loop_array)

lemma MatchOrderMessageJSON_fatal:
  assumes "Call g ''messageValidator'' doc = Returns r"
    and "\<not> IsNullOrUndefined (Get r ''fatal'')"
  shows "MatchOrderMessageJSON g doc =
           Returns (Inl (js_error (Value_String (Get r ''fatal''))))"
  using assms by (simp add: MatchOrderMessageJSON_def)

lemma MatchOrderMessageJSON_non_fatal:
  assumes "Call g ''messageValidator'' doc = Returns r"
    and "IsNullOrUndefined (Get r ''fatal'')"
    and "Get r ''success'' = JSBoolean b"
  shows "MatchOrderMessageJSON g doc = Returns (Inr b)"
  using assms by (simp add: MatchOrderMessageJSON_def)

subsection \<open>The gossip validator\<close>

text \<open>
  The validator has no panic of its own and recovers from none: it panics exactly when the
  call of the message validator does, or when the result has neither a fatal signal nor a
  boolean \<open>success\<close>, on which \<open>Bool()\<close> panics.
\<close>

lemma ValidatePubSubMessage_Panic_iff:
  "ValidatePubSubMessage g ctx sender msg lg = Panic \<longleftrightarrow>
     (case Call g ''messageValidator'' (Data msg) of
        Panic \<Rightarrow> True
      | Returns jsResult \<Rightarrow> \<not> fatal_or_verdict jsResult)"
proof (cases "Call g ''messageValidator'' (Data msg)")
  case Panic
  then show ?thesis
    by (simp add: ValidatePubSubMessage_def MatchOrderMessageJSON_def)
next
  case (Returns jsResult)
  then show ?thesis
    by (cases "Get jsResult ''success''")
       (simp_all add: ValidatePubSubMessage_def MatchOrderMessageJSON_def fatal_or_verdict_def
          Let_def)
qed

text \<open>
  C1, as the specification has it, fails: \<open>ValidatePubSubMessage\<close> does not return a
  boolean for every input. It panics where no message validator is installed on the global
  object, where the message validator throws, and where the validator's result has neither
  a fatal signal nor a boolean \<open>success\<close> (here the empty object).
\<close>

theorem ValidatePubSubMessage_panics:
  "ValidatePubSubMessage Map.empty
     \<lparr>cancelled = False\<rparr> ''peer-1''
     \<lparr>From = ''peer-1'', Data = ''{}'', Seqno = ''1'', TopicIDs = []\<rparr> [] = Panic \<and>
   ValidatePubSubMessage [''messageValidator'' \<mapsto> (\<lambda>doc. Panic)]
     \<lparr>cancelled = False\<rparr> ''peer-1''
     \<lparr>From = ''peer-1'', Data = ''{}'', Seqno = ''1'', TopicIDs = []\<rparr> [] = Panic \<and>
   ValidatePubSubMessage [''messageValidator'' \<mapsto> (\<lambda>doc. Returns Map.empty)]
     \<lparr>cancelled = False\<rparr> ''peer-1''
     \<lparr>From = ''peer-1'', Data = ''{}'', Seqno = ''1'', TopicIDs = []\<rparr> [] = Panic"
  by (simp add: ValidatePubSubMessage_def MatchOrderMessageJSON_def Call_def Get_def)

text \<open>
  C1, amended. Whatever the context, the sender and the message, \<open>ValidatePubSubMessage\<close>
  returns a boolean and does not panic, where the message validator returns on the payload
  a result with a fatal signal or a boolean \<open>success\<close>. There are two cases and no third:
  \<open>MatchOrderMessageJSON\<close> on the payload fails with an error, and the validator writes
  that error to the log and returns false; or it returns a boolean, and the validator
  returns that boolean and writes nothing.
\<close>

theorem ValidatePubSubMessage_returns:
  assumes "Call g ''messageValidator'' (Data msg) = Returns jsResult"
    and "fatal_or_verdict jsResult"
  shows "(\<exists>err. MatchOrderMessageJSON g (Data msg) = Returns (Inl err) \<and>
            ValidatePubSubMessage g ctx sender msg lg =
              Returns (False, lg @ [\<lparr>level = ErrorLevel,
                                       message = ''MatchOrderMessageJSON returned an error'',
                                       error_field = err\<rparr>])) \<or>
         (\<exists>isValid. MatchOrderMessageJSON g (Data msg) = Returns (Inr isValid) \<and>
            ValidatePubSubMessage g ctx sender msg lg = Returns (isValid, lg))"
proof (cases "IsNullOrUndefined (Get jsResult ''fatal'')")
  case True
  with assms(2) obtain b where "Get jsResult ''success'' = JSBoolean b"
    by (auto simp: fatal_or_verdict_def dest: is_boolean_cases)
  with assms(1) True have "MatchOrderMessageJSON g (Data msg) = Returns (Inr b)"
    by (rule MatchOrderMessageJSON_non_fatal)
  then show ?thesis by (simp add: ValidatePubSubMessage_def)
next
  case False
  with assms(1) have "MatchOrderMessageJSON g (Data msg) =
      Returns (Inl (js_error (Value_String (Get jsResult ''fatal''))))"
    by (rule MatchOrderMessageJSON_fatal)
  then show ?thesis by (simp add: ValidatePubSubMessage_def)
qed

text \<open>
  Scenario C of the specification: the engine signals \<open>engine not initialized\<close>; the
  validator returns false and the log holds the signal.
\<close>

theorem ValidatePubSubMessage_returns_witness:
  "ValidatePubSubMessage
     [''messageValidator'' \<mapsto>
        (\<lambda>doc. Returns [''fatal'' \<mapsto> JSString ''engine not initialized''])]
     \<lparr>cancelled = False\<rparr> ''peer-1''
     \<lparr>From = ''peer-1'', Data = ''{}'', Seqno = ''1'', TopicIDs = []\<rparr> [] =
   Returns (False, [\<lparr>level = ErrorLevel,
                      message = ''MatchOrderMessageJSON returned an error'',
                      error_field = Err ''js error: engine not initialized''\<rparr>])"
  using ValidatePubSubMessage_returns
    [where g = "[''messageValidator'' \<mapsto>
                   (\<lambda>doc. Returns [''fatal'' \<mapsto> JSString ''engine not initialized''])]"
       and msg = "\<lparr>From = ''peer-1'', Data = ''{}'', Seqno = ''1'', TopicIDs = []\<rparr>"
       and jsResult = "[''fatal'' \<mapsto> JSString ''engine not initialized'']"
       and ctx = "\<lparr>cancelled = False\<rparr>" and sender = "''peer-1''" and lg = "[]"]
  by (simp add: Call_def fatal_or_verdict_def Get_def MatchOrderMessageJSON_def js_error_def)

subsection \<open>Fatal signals\<close>

text \<open>
  C2. Let the engine's result carry a fatal signal: its \<open>fatal\<close> is neither \<open>null\<close> nor
  \<open>undefined\<close>. Then each public operation returns an error, and neither a boolean nor an
  outcome: \<open>ValidateOrderJSON\<close> and \<open>MatchOrderMessageJSON\<close> on the document, and
  \<open>ValidateOrder\<close> and \<open>MatchOrder\<close> on an order that serializes to it. The error is made
  of \<open>fatal\<close> alone, and the result object is otherwise arbitrary: its \<open>success\<close> and
  \<open>errors\<close> may be missing or of a type that \<open>Bool()\<close> and \<open>Length()\<close> panic on, so they
  are not read.
\<close>

theorem fatal_signal_is_an_error:
  assumes "\<not> IsNullOrUndefined (Get jsResult ''fatal'')"
  shows "(Call g ''orderValidator'' doc = Returns jsResult \<longrightarrow>
            ValidateOrderJSON g doc =
              Returns (Inl (js_error (Value_String (Get jsResult ''fatal''))))) \<and>
         (MarshalJSON order = Inr doc \<and> Call g ''orderValidator'' doc = Returns jsResult \<longrightarrow>
            ValidateOrder g MarshalJSON order =
              Returns (Inl (js_error (Value_String (Get jsResult ''fatal'')))) \<and>
            MatchOrder g MarshalJSON order =
              Returns (Inl (js_error (Value_String (Get jsResult ''fatal''))))) \<and>
         (Call g ''messageValidator'' doc = Returns jsResult \<longrightarrow>
            MatchOrderMessageJSON g doc =
              Returns (Inl (js_error (Value_String (Get jsResult ''fatal'')))))"
  using assms
  by (simp add: ValidateOrderJSON_fatal MatchOrderMessageJSON_fatal ValidateOrder_def
      MatchOrder_def)

text \<open>
  Both validators return an object that has \<open>fatal\<close> and nothing else, so that reading
  \<open>success\<close> would panic; the order is the number 7 and serializes to \<open>{}\<close>.
\<close>

theorem fatal_signal_is_an_error_witness:
  "ValidateOrderJSON
     [''orderValidator'' \<mapsto> (\<lambda>doc. Returns [''fatal'' \<mapsto> JSString ''engine not initialized'']),
      ''messageValidator'' \<mapsto> (\<lambda>doc. Returns [''fatal'' \<mapsto> JSString ''engine not initialized''])]
     ''{}'' = Returns (Inl (Err ''js error: engine not initialized'')) \<and>
   ValidateOrder
     [''orderValidator'' \<mapsto> (\<lambda>doc. Returns [''fatal'' \<mapsto> JSString ''engine not initialized'']),
      ''messageValidator'' \<mapsto> (\<lambda>doc. Returns [''fatal'' \<mapsto> JSString ''engine not initialized''])]
     (\<lambda>n::nat. Inr ''{}'') 7 = Returns (Inl (Err ''js error: engine not initialized'')) \<and>
   MatchOrder
     [''orderValidator'' \<mapsto> (\<lambda>doc. Returns [''fatal'' \<mapsto> JSString ''engine not initialized'']),
      ''messageValidator'' \<mapsto> (\<lambda>doc. Returns [''fatal'' \<mapsto> JSString ''engine not initialized''])]
     (\<lambda>n::nat. Inr ''{}'') 7 = Returns (Inl (Err ''js error: engine not initialized'')) \<and>
   MatchOrderMessageJSON
     [''orderValidator'' \<mapsto> (\<lambda>doc. Returns [''fatal'' \<mapsto> JSString ''engine not initialized'']),
      ''messageValidator'' \<mapsto> (\<lambda>doc. Returns [''fatal'' \<mapsto> JSString ''engine not initialized''])]
     ''{}'' = Returns (Inl (Err ''js error: engine not initialized''))"
  using fatal_signal_is_an_error
    [where jsResult = "[''fatal'' \<mapsto> JSString ''engine not initialized'']"
       and g = "[''orderValidator'' \<mapsto>
                   (\<lambda>doc. Returns [''fatal'' \<mapsto> JSString ''engine not initialized'']),
                 ''messageValidator'' \<mapsto>
                   (\<lambda>doc. Returns [''fatal'' \<mapsto> JSString ''engine not initialized''])]"
       and doc = "''{}''" and MarshalJSON = "\<lambda>n::nat. Inr ''{}''" and order = 7]
  by (simp add: Call_def Get_def js_error_def)

subsection \<open>Matching\<close>

text \<open>
  On the typed path the outcome is built before its \<open>valid\<close> flag is projected, and
  building it reads the length of \<open>errors\<close>: where the engine's result has no fatal signal
  and its \<open>errors\<close> is no array, \<open>MatchOrder\<close> panics, whatever \<open>success\<close> is.
\<close>

lemma MatchOrder_Panic_without_errors:
  assumes "MarshalJSON order = Inr doc"
    and "Call g ''orderValidator'' doc = Returns jsResult"
    and "IsNullOrUndefined (Get jsResult ''fatal'')"
    and "Value_Length (Get jsResult ''errors'') = Panic"
  shows "MatchOrder g MarshalJSON order = Panic"
proof -
  have "ValidateOrderJSON_loop (Get jsResult ''errors'') 0 [] = Panic"
    using assms(4) by (simp add: ValidateOrderJSON_loop.simps)
  then have "ValidateOrderJSON g doc = Panic"
    using assms(2,3) by (simp add: ValidateOrderJSON_def split: run.splits)
  then show ?thesis
    using assms(1) by (simp add: MatchOrder_def ValidateOrder_def)
qed




text \<open>
  C4. \<open>MatchOrder\<close> fails with an error exactly when \<open>ValidateOrder\<close> does, and with the
  same error; it panics exactly when \<open>ValidateOrder\<close> does; and when \<open>ValidateOrder\<close>
  returns an outcome, \<open>MatchOrder\<close> returns the \<open>valid\<close> flag of that outcome.
\<close>

theorem MatchOrder_projects_ValidateOrder:
  "(\<forall>err. MatchOrder g MarshalJSON order = Returns (Inl err) \<longleftrightarrow>
          ValidateOrder g MarshalJSON order = Returns (Inl err)) \<and>
   (MatchOrder g MarshalJSON order = Panic \<longleftrightarrow> ValidateOrder g MarshalJSON order = Panic) \<and>
   (\<forall>result. ValidateOrder g MarshalJSON order = Returns (Inr result) \<longrightarrow>
          MatchOrder g MarshalJSON order = Returns (Inr (valid result)))"
  by (auto simp: MatchOrder_def Valid_def split: run.splits sum.splits)

text \<open>
  Scenario B of the specification on the typed path: \<open>ValidateOrder\<close> returns an outcome
  that is not valid, and the theorem gives the result of \<open>MatchOrder\<close>.
\<close>

theorem MatchOrder_projects_ValidateOrder_witness:
  "ValidateOrder
     [''orderValidator'' \<mapsto> (\<lambda>doc. Returns [''success'' \<mapsto> JSBoolean False,
        ''errors'' \<mapsto> JSArray [JSString ''missing field: makerAddress'']])]
     (\<lambda>n::nat. Inr ''{}'') 7 =
     Returns (Inr \<lparr>valid = False, errors = [Err ''js error: missing field: makerAddress'']\<rparr>) \<and>
   MatchOrder
     [''orderValidator'' \<mapsto> (\<lambda>doc. Returns [''success'' \<mapsto> JSBoolean False,
        ''errors'' \<mapsto> JSArray [JSString ''missing field: makerAddress'']])]
     (\<lambda>n::nat. Inr ''{}'') 7 = Returns (Inr False)"
proof -
  let ?g = "[''orderValidator'' \<mapsto> (\<lambda>doc. Returns [''success'' \<mapsto> JSBoolean False,
        ''errors'' \<mapsto> JSArray [JSString ''missing field: makerAddress'']])]"
  have v: "ValidateOrder ?g (\<lambda>n::nat. Inr ''{}'') 7 =
     Returns (Inr \<lparr>valid = False, errors = [Err ''js error: missing field: makerAddress'']\<rparr>)"
    by (simp add: ValidateOrder_def ValidateOrderJSON_def Call_def Get_def
        ValidateOrderJSON_loop_array js_error_def)
  with MatchOrder_projects_ValidateOrder [of ?g "\<lambda>n::nat. Inr ''{}''" 7]
  have "MatchOrder ?g (\<lambda>n::nat. Inr ''{}'') 7 = Returns (Inr False)"
    by simp
  with v show ?thesis by simp
qed

text \<open>
  C5. For an order whose serialization succeeds, \<open>MatchOrder\<close> on the order is
  \<open>matchOrderDocument\<close> on its serialization: the same boolean where \<open>ValidateOrderJSON\<close>
  returns an outcome, and the same error or panic where it does not.
\<close>

theorem MatchOrder_is_matchOrderDocument:
  assumes "MarshalJSON order = Inr orderJSON"
  shows "MatchOrder g MarshalJSON order = matchOrderDocument g orderJSON"
  using assms by (simp add: MatchOrder_def ValidateOrder_def matchOrderDocument_def)

text \<open>
  The orders are numbers: 0 does not serialize, any other serializes to \<open>{}\<close>; the engine
  accepts the document \<open>{}\<close> and no other.
\<close>

theorem MatchOrder_is_matchOrderDocument_witness:
  "MatchOrder
     [''orderValidator'' \<mapsto> (\<lambda>doc. Returns [''success'' \<mapsto> JSBoolean (doc = ''{}''),
        ''errors'' \<mapsto> JSArray []])]
     (\<lambda>n::nat. if n = 0 then Inl (Err ''unencodable'') else Inr ''{}'') 7 =
   matchOrderDocument
     [''orderValidator'' \<mapsto> (\<lambda>doc. Returns [''success'' \<mapsto> JSBoolean (doc = ''{}''),
        ''errors'' \<mapsto> JSArray []])]
     ''{}'' \<and>
   matchOrderDocument
     [''orderValidator'' \<mapsto> (\<lambda>doc. Returns [''success'' \<mapsto> JSBoolean (doc = ''{}''),
        ''errors'' \<mapsto> JSArray []])]
     ''{}'' = Returns (Inr True)"
  using MatchOrder_is_matchOrderDocument
    [where MarshalJSON = "\<lambda>n::nat. if n = 0 then Inl (Err ''unencodable'') else Inr ''{}''"
       and order = 7 and orderJSON = "''{}''"
       and g = "[''orderValidator'' \<mapsto>
                   (\<lambda>doc. Returns [''success'' \<mapsto> JSBoolean (doc = ''{}''),
                                     ''errors'' \<mapsto> JSArray []])]"]
  by (simp add: matchOrderDocument_def ValidateOrderJSON_def Call_def Get_def
      ValidateOrderJSON_loop_array Valid_def)

subsection \<open>Serialization\<close>

text \<open>
  C8. For an order whose serialization fails, \<open>ValidateOrder\<close> returns the error of the
  serialization and no outcome. This holds for every global object \<open>g\<close>: also for one with
  no validator installed and for one whose validator throws, where a call of the engine
  would be a panic. So the engine is not called.
\<close>

theorem ValidateOrder_serialization_error:
  assumes "MarshalJSON order = Inl err"
  shows "ValidateOrder g MarshalJSON order = Returns (Inl err)"
  using assms by (simp add: ValidateOrder_def)

text \<open>
  Scenario D of the specification. The order 0 does not serialize: the result is the error,
  with no validator installed and with one that throws. The order 7 serializes, and the
  validator that throws makes \<open>ValidateOrder\<close> panic.
\<close>

theorem ValidateOrder_serialization_error_witness:
  "ValidateOrder Map.empty
     (\<lambda>n::nat. if n = 0 then Inl (Err ''unencodable'') else Inr ''{}'') 0 =
     Returns (Inl (Err ''unencodable'')) \<and>
   ValidateOrder [''orderValidator'' \<mapsto> (\<lambda>doc. Panic)]
     (\<lambda>n::nat. if n = 0 then Inl (Err ''unencodable'') else Inr ''{}'') 0 =
     Returns (Inl (Err ''unencodable'')) \<and>
   ValidateOrder [''orderValidator'' \<mapsto> (\<lambda>doc. Panic)]
     (\<lambda>n::nat. if n = 0 then Inl (Err ''unencodable'') else Inr ''{}'') 7 = Panic"
  using ValidateOrder_serialization_error
    [where MarshalJSON = "\<lambda>n::nat. if n = 0 then Inl (Err ''unencodable'') else Inr ''{}''"
       and order = 0 and err = "Err ''unencodable''" and g = Map.empty]
    ValidateOrder_serialization_error
    [where MarshalJSON = "\<lambda>n::nat. if n = 0 then Inl (Err ''unencodable'') else Inr ''{}''"
       and order = 0 and err = "Err ''unencodable''"
       and g = "[''orderValidator'' \<mapsto> (\<lambda>doc. Panic)]"]
  by (simp add: ValidateOrder_def ValidateOrderJSON_def Call_def)

subsection \<open>The outcome of \<open>ValidateOrderJSON\<close>\<close>

text \<open>
  C7. Let the engine's result have no fatal signal, the success flag \<open>success\<close> and the
  error messages \<open>msgs\<close>. Then \<open>ValidateOrderJSON\<close> returns an outcome whose \<open>valid\<close> is
  \<open>success\<close> and whose \<open>errors\<close> has as many elements as \<open>msgs\<close>, the one at index \<open>i\<close>
  being the error made of the message at index \<open>i\<close>.
\<close>

theorem ValidateOrderJSON_copies_result:
  assumes "Call g ''orderValidator'' doc = Returns jsResult"
    and "IsNullOrUndefined (Get jsResult ''fatal'')"
    and "Get jsResult ''success'' = JSBoolean success"
    and "Get jsResult ''errors'' = JSArray (map JSString msgs)"
  shows "\<exists>outcome. ValidateOrderJSON g doc = Returns (Inr outcome) \<and>
           valid outcome = success \<and>
           length (errors outcome) = length msgs \<and>
           (\<forall>i < length msgs. errors outcome ! i = Err (''js error: '' @ msgs ! i))"
  using ValidateOrderJSON_non_fatal [OF assms]
  by (simp add: comp_def js_error_def)

text \<open>
  Scenario B of the specification, with a second message: the theorem fixes the outcome.
\<close>

theorem ValidateOrderJSON_copies_result_witness:
  "ValidateOrderJSON
     [''orderValidator'' \<mapsto> (\<lambda>doc. Returns [''success'' \<mapsto> JSBoolean False,
        ''errors'' \<mapsto> JSArray [JSString ''missing field: makerAddress'',
                                   JSString ''bad type: salt'']])] ''{}'' =
     Returns (Inr \<lparr>valid = False, errors = [Err ''js error: missing field: makerAddress'',
                                              Err ''js error: bad type: salt'']\<rparr>)"
proof -
  let ?g = "[''orderValidator'' \<mapsto> (\<lambda>doc. Returns [''success'' \<mapsto> JSBoolean False,
        ''errors'' \<mapsto> JSArray [JSString ''missing field: makerAddress'',
                                   JSString ''bad type: salt'']])]"
  let ?msgs = "[''missing field: makerAddress'', ''bad type: salt'']"
  have "\<exists>outcome. ValidateOrderJSON ?g ''{}'' = Returns (Inr outcome) \<and>
           valid outcome = False \<and>
           length (errors outcome) = length ?msgs \<and>
           (\<forall>i < length ?msgs. errors outcome ! i = Err (''js error: '' @ ?msgs ! i))"
    by (rule ValidateOrderJSON_copies_result
        [where jsResult = "[''success'' \<mapsto> JSBoolean False,
            ''errors'' \<mapsto> JSArray [JSString ''missing field: makerAddress'',
                                       JSString ''bad type: salt'']]"])
       (simp_all add: Call_def Get_def)
  then obtain outcome where o: "ValidateOrderJSON ?g ''{}'' = Returns (Inr outcome)"
    and v: "\<not> valid outcome" and l: "length (errors outcome) = 2"
    and e: "\<forall>i < 2. errors outcome ! i = Err (''js error: '' @ ?msgs ! i)"
    by auto
  from e have "errors outcome ! 0 = Err ''js error: missing field: makerAddress''"
    and "errors outcome ! 1 = Err ''js error: bad type: salt''"
    by simp_all
  with l have "errors outcome = [Err ''js error: missing field: makerAddress'',
                                  Err ''js error: bad type: salt'']"
    by (cases "errors outcome"; cases "tl (errors outcome)") auto
  with v have "outcome = \<lparr>valid = False,
      errors = [Err ''js error: missing field: makerAddress'', Err ''js error: bad type: salt'']\<rparr>"
    by simp
  with o show ?thesis by simp
qed

text \<open>
  C9. Let the engine's result have no fatal signal, \<open>success\<close> false and an empty list of
  errors. Then \<open>ValidateOrderJSON\<close> returns the outcome that is not valid and has no errors.
\<close>

theorem ValidateOrderJSON_no_errors_synthesized:
  assumes "Call g ''orderValidator'' doc = Returns jsResult"
    and "IsNullOrUndefined (Get jsResult ''fatal'')"
    and "Get jsResult ''success'' = JSBoolean False"
    and "Get jsResult ''errors'' = JSArray []"
  shows "ValidateOrderJSON g doc = Returns (Inr \<lparr>valid = False, errors = []\<rparr>)"
  using ValidateOrderJSON_non_fatal [OF assms] by simp

theorem ValidateOrderJSON_no_errors_synthesized_witness:
  "ValidateOrderJSON
     [''orderValidator'' \<mapsto> (\<lambda>doc. Returns [''fatal'' \<mapsto> JSNull,
        ''success'' \<mapsto> JSBoolean False, ''errors'' \<mapsto> JSArray []])] ''{}'' =
     Returns (Inr \<lparr>valid = False, errors = []\<rparr>)"
  by (rule ValidateOrderJSON_no_errors_synthesized
      [where jsResult = "[''fatal'' \<mapsto> JSNull, ''success'' \<mapsto> JSBoolean False,
                          ''errors'' \<mapsto> JSArray []]"])
     (simp_all add: Call_def Get_def)

text \<open>
  C6, as the specification has it, fails: \<open>ValidateOrderJSON\<close> copies the two fields of the
  engine's result and compares them nowhere. An engine that reports success together with
  a message yields an outcome that is valid and has an error.
\<close>

theorem ValidateOrderJSON_valid_with_errors:
  "ValidateOrderJSON
     [''orderValidator'' \<mapsto> (\<lambda>doc. Returns [''success'' \<mapsto> JSBoolean True,
        ''errors'' \<mapsto> JSArray [JSString ''unknown format ignored'']])]
     ''{}'' =
     Returns (Inr \<lparr>valid = True, errors = [Err ''js error: unknown format ignored'']\<rparr>) \<and>
   valid \<lparr>valid = True, errors = [Err ''js error: unknown format ignored'']\<rparr> \<and>
   errors \<lparr>valid = True, errors = [Err ''js error: unknown format ignored'']\<rparr> \<noteq> []"
  by (simp add: ValidateOrderJSON_def Call_def Get_def ValidateOrderJSON_loop_array js_error_def)

text \<open>
  C6, amended. Let the engine's result have no fatal signal, and let it report success only
  with an empty list of errors. Then the outcome of \<open>ValidateOrderJSON\<close> has the
  invariant: if it is valid, it has no errors.
\<close>

theorem ValidateOrderJSON_invariant_from_engine:
  assumes "Call g ''orderValidator'' doc = Returns jsResult"
    and "IsNullOrUndefined (Get jsResult ''fatal'')"
    and "Get jsResult ''success'' = JSBoolean success"
    and "Get jsResult ''errors'' = JSArray xs"
    and "success \<longrightarrow> xs = []"
  shows "\<exists>outcome. ValidateOrderJSON g doc = Returns (Inr outcome) \<and>
           (valid outcome \<longrightarrow> errors outcome = [])"
  using ValidateOrderJSON_non_fatal [OF assms(1-4)] assms(5) by simp

theorem ValidateOrderJSON_invariant_from_engine_witness:
  "ValidateOrderJSON
     [''orderValidator'' \<mapsto> (\<lambda>doc. Returns [''success'' \<mapsto> JSBoolean True,
        ''errors'' \<mapsto> JSArray []])] ''{}'' =
     Returns (Inr \<lparr>valid = True, errors = []\<rparr>)"
proof -
  let ?g = "[''orderValidator'' \<mapsto> (\<lambda>doc. Returns [''success'' \<mapsto> JSBoolean True,
        ''errors'' \<mapsto> JSArray []])]"
  have "\<exists>outcome. ValidateOrderJSON ?g ''{}'' = Returns (Inr outcome) \<and>
           (valid outcome \<longrightarrow> errors outcome = [])"
    by (rule ValidateOrderJSON_invariant_from_engine
        [where jsResult = "[''success'' \<mapsto> JSBoolean True, ''errors'' \<mapsto> JSArray []]"
           and success = True and xs = "[]"])
       (simp_all add: Call_def Get_def)
  then obtain outcome where o: "ValidateOrderJSON ?g ''{}'' = Returns (Inr outcome)"
    and inv: "valid outcome \<longrightarrow> errors outcome = []" by blast
  have "valid outcome"
    using o by (auto simp: ValidateOrderJSON_def Call_def Get_def ValidateOrderJSON_loop_array)
  with inv have "errors outcome = []" by simp
  with \<open>valid outcome\<close> have "outcome = \<lparr>valid = True, errors = []\<rparr>" by simp
  with o show ?thesis by simp
qed

subsection \<open>The decision depends on the payload alone\<close>

text \<open>
  C10. For one global object, two calls of \<open>ValidatePubSubMessage\<close> on messages with the
  same payload return the same boolean (or both panic), whatever the two contexts, the two
  senders, the other fields of the two messages and the two logs.
\<close>

theorem ValidatePubSubMessage_payload_only:
  assumes "Data msg = Data msg'"
  shows "map_run fst (ValidatePubSubMessage g ctx sender msg lg) =
         map_run fst (ValidatePubSubMessage g ctx' sender' msg' lg')"
  using assms by (simp add: ValidatePubSubMessage_def split: run.splits sum.splits)

theorem ValidatePubSubMessage_payload_only_witness:
  "map_run fst (ValidatePubSubMessage
     [''messageValidator'' \<mapsto> (\<lambda>doc. Returns [''success'' \<mapsto> JSBoolean (doc = ''{}''),
        ''errors'' \<mapsto> JSArray []])]
     \<lparr>cancelled = False\<rparr> ''peer-1''
     \<lparr>From = ''peer-1'', Data = ''{}'', Seqno = ''1'', TopicIDs = [''orders'']\<rparr> []) =
   map_run fst (ValidatePubSubMessage
     [''messageValidator'' \<mapsto> (\<lambda>doc. Returns [''success'' \<mapsto> JSBoolean (doc = ''{}''),
        ''errors'' \<mapsto> JSArray []])]
     \<lparr>cancelled = True\<rparr> ''peer-2''
     \<lparr>From = ''peer-2'', Data = ''{}'', Seqno = ''9'', TopicIDs = []\<rparr> []) \<and>
   ValidatePubSubMessage
     [''messageValidator'' \<mapsto> (\<lambda>doc. Returns [''success'' \<mapsto> JSBoolean (doc = ''{}''),
        ''errors'' \<mapsto> JSArray []])]
     \<lparr>cancelled = True\<rparr> ''peer-2''
     \<lparr>From = ''peer-2'', Data = ''{}'', Seqno = ''9'', TopicIDs = []\<rparr> [] = Returns (True, [])"
  using ValidatePubSubMessage_payload_only
    [where msg = "\<lparr>From = ''peer-1'', Data = ''{}'', Seqno = ''1'', TopicIDs = [''orders'']\<rparr>"
       and msg' = "\<lparr>From = ''peer-2'', Data = ''{}'', Seqno = ''9'', TopicIDs = []\<rparr>"
       and ctx = "\<lparr>cancelled = False\<rparr>" and ctx' = "\<lparr>cancelled = True\<rparr>"
       and sender = "''peer-1''" and sender' = "''peer-2''" and lg = "[]" and lg' = "[]"
       and g = "[''messageValidator'' \<mapsto>
                   (\<lambda>doc. Returns [''success'' \<mapsto> JSBoolean (doc = ''{}''),
                                     ''errors'' \<mapsto> JSArray []])]"]
  by (simp add: ValidatePubSubMessage_def MatchOrderMessageJSON_def Call_def Get_def)

end
